theory Spec2Isabelle
  imports Main "HOL-Library.Sublist"
begin

section \<open>The gateway: tables and values\<close>

text \<open>
  Python strings are \<open>string\<close>; a JSON object returned by a service function is an
  association list in the order the source writes the keys. A \<open>datetime\<close> is the number of
  microseconds since the epoch (the resolution of \<open>datetime.utcnow()\<close>), so
  \<open>timedelta(hours=24)\<close> is \<open>86400000000\<close>.
\<close>

type_synonym dict = "(string \<times> string) list"

datatype json =
    JNull
  | JBool bool
  | JNum int
  | JStr string
  | JArr "json list"
  | JObj "(string \<times> json) list"

datatype error =
    IntegrityError
  | MultipleResultsFound
  | AttributeError
  | HTTPException nat string

text \<open>Truthiness of an \<open>Optional[str]\<close>: \<open>None\<close> and the empty string are falsy.\<close>

fun truthy :: "string option \<Rightarrow> bool" where
  "truthy None = False"
| "truthy (Some s) = (s \<noteq> [])"

text \<open>
  Rows of the gateway's tables \<open>Patient\<close>, \<open>ConsentRequest\<close> and \<open>DataTransfer\<close>, with the
  columns the service functions write. The status columns are plain strings in the source,
  and \<open>notify_consent\<close> and \<open>notify_data_flow\<close> store whatever string they are given. The
  counters and timestamps that only the read-only \<open>get_data_request_status\<close> looks at are
  left out, as is that function.
\<close>

record gw_patient =
  gp_name :: string

record consent_request =
  cr_patient_abha_id :: string
  cr_hip_id :: string
  cr_purpose :: dict
  cr_status :: string

record data_transfer =
  dt_consent_request_id :: string
  dt_patient_abha_id :: string
  dt_from_entity :: string
  dt_to_entity :: string
  dt_status :: string
  dt_data_count :: nat
  dt_next_retry_at :: "int option"
  dt_expires_at :: "int option"
  dt_encrypted_data :: "string option"

text \<open>The arguments of one call of \<open>task_processor.send_hip_data_request\<close>.\<close>

record hip_data_request =
  hr_transfer_id :: string
  hr_hip_id :: string
  hr_hiu_id :: string
  hr_patient_id :: string
  hr_consent_id :: string
  hr_care_context_ids :: "string list"
  hr_data_types :: "string list"

text \<open>
  Modelled from the spec: \<open>app/database/models.py\<close> is not among the sources. The spec's data
  model gives each consent request and each transfer a unique identifier, and the service
  functions look patients up by \<open>abha_id\<close> with \<open>scalar_one_or_none\<close>; so each table is a map
  from that key to the row (the key column \<open>abha_id\<close>, \<open>consent_request_id\<close> or
  \<open>transfer_id\<close> is the map's argument, not a field of the row), and inserting a second row
  with a key already present fails with \<open>IntegrityError\<close> when it is committed. The spec calls
  the encrypted payload a nullable blob: a column that a constructor call does not mention is
  null (\<open>None\<close>). Foreign keys are not checked. Each \<open>db.commit()\<close> is a transaction of its
  own: what was committed before a failing insert stays in the store, which is why a failing
  function still returns a store.

  \<open>hip_requests\<close> is a ghost field: the calls made to the webhook dispatcher
  \<open>task_processor.send_hip_data_request\<close>, oldest first. The dispatcher itself is not among
  the sources; its boolean answer is an input of \<open>request_health_info\<close>.
\<close>

record gateway =
  patients :: "string \<rightharpoonup> gw_patient"
  consents :: "string \<rightharpoonup> consent_request"
  transfers :: "string \<rightharpoonup> data_transfer"
  hip_requests :: "hip_data_request list"

section \<open>consent\_service.py\<close>

definition ensure_patient :: "string \<Rightarrow> gateway \<Rightarrow> gateway" where
  "ensure_patient patient_abha_id db =
     (case patients db patient_abha_id of
        Some patient \<Rightarrow> db
      | None \<Rightarrow>
          db\<lparr>patients := (patients db)(patient_abha_id \<mapsto>
               \<lparr>gp_name = ''Patient '' @ patient_abha_id\<rparr>)\<rparr>)"

text \<open>
  \<open>init_consent\<close>: \<open>uuid\<close> is the text of \<open>uuid.uuid4()\<close>. The patient is committed before
  the consent is inserted, so it stays when the insert fails.
\<close>

definition init_consent ::
  "string \<Rightarrow> string \<Rightarrow> dict \<Rightarrow> string \<Rightarrow> gateway \<Rightarrow> (error + dict) \<times> gateway" where
  "init_consent patient_abha_id hip_id purpose uuid db =
     (let db1 = ensure_patient patient_abha_id db;
          consent_id = uuid
      in if consents db1 consent_id \<noteq> None then (Inl IntegrityError, db1)
         else
           let new_consent = \<lparr>cr_patient_abha_id = patient_abha_id, cr_hip_id = hip_id,
                 cr_purpose = purpose, cr_status = ''APPROVED''\<rparr>
           in (Inr [(''consentRequestId'', consent_id), (''status'', cr_status new_consent)],
               db1\<lparr>consents := (consents db1)(consent_id \<mapsto> new_consent)\<rparr>))"

definition notify_consent :: "string \<Rightarrow> string \<Rightarrow> gateway \<Rightarrow> dict \<times> gateway" where
  "notify_consent consent_id status db =
     (case consents db consent_id of
        Some consent \<Rightarrow>
          ([(''consentRequestId'', consent_id), (''status'', status)],
           db\<lparr>consents := (consents db)(consent_id \<mapsto> consent\<lparr>cr_status := status\<rparr>)\<rparr>)
      | None \<Rightarrow>
          ([(''consentRequestId'', consent_id), (''status'', ''NOT_FOUND'')], db))"

section \<open>data\_service.py\<close>

text \<open>
  \<open>_ensure_consent_approved\<close>. A consent that is found is set to \<open>APPROVED\<close> whatever its
  status was; when no id is given or the id is not found, a consent is created as
  \<open>APPROVED\<close>, under the given id or, without one, under \<open>consent-\<close> followed by \<open>uuid\<close> (the
  text of \<open>uuid.uuid4()\<close>). The result is the consent's id.
\<close>

definition ensure_consent_approved ::
  "string option \<Rightarrow> string \<Rightarrow> string \<Rightarrow> string \<Rightarrow> gateway \<Rightarrow> (error + string) \<times> gateway" where
  "ensure_consent_approved consent_id patient_abha_id hip_id uuid db =
     (case (case consent_id of
              None \<Rightarrow> None
            | Some cid \<Rightarrow>
                if cid \<noteq> [] then map_option (\<lambda>consent. (cid, consent)) (consents db cid)
                else None) of
        Some (cid, consent) \<Rightarrow>
          (Inr cid,
           if cr_status consent \<noteq> ''APPROVED''
           then db\<lparr>consents := (consents db)(cid \<mapsto> consent\<lparr>cr_status := ''APPROVED''\<rparr>)\<rparr>
           else db)
      | None \<Rightarrow>
          let new_consent_id =
                (case consent_id of
                   None \<Rightarrow> ''consent-'' @ uuid
                 | Some cid \<Rightarrow> if cid \<noteq> [] then cid else ''consent-'' @ uuid);
              consent = \<lparr>cr_patient_abha_id = patient_abha_id, cr_hip_id = hip_id,
                 cr_purpose = [(''text'', ''Auto-approved for data transfer'')],
                 cr_status = ''APPROVED''\<rparr>
          in if consents db new_consent_id \<noteq> None then (Inl IntegrityError, db)
             else (Inr new_consent_id,
                   db\<lparr>consents := (consents db)(new_consent_id \<mapsto> consent)\<rparr>))"

text \<open>
  What the environment answers during one call of \<open>request_health_info\<close>, in the order the
  source asks: the two \<open>uuid.uuid4()\<close> texts, the two readings of \<open>datetime.utcnow()\<close> (the
  constructor call evaluates \<open>next_retry_at=datetime.utcnow()\<close> and then
  \<open>expires_at=datetime.utcnow() + timedelta(hours=24)\<close>), and the dispatcher's answer.
\<close>

record rhi_env =
  consent_uuid :: string
  request_uuid :: string
  now_next_retry :: int
  now_expires :: int
  webhook_sent :: bool

definition hours24 :: int where
  "hours24 = 24 * 3600 * 1000000"

text \<open>
  Lines 70 to 88 of \<open>request_health_info\<close>: the patient, the consent and the new row, up to
  the commit that stores it. The result is the request id, the consent id and the row.
\<close>

definition request_health_info_create ::
  "string \<Rightarrow> string \<Rightarrow> string \<Rightarrow> string option \<Rightarrow> string list \<Rightarrow> string list \<Rightarrow> rhi_env \<Rightarrow>
   gateway \<Rightarrow> (error + string \<times> string \<times> data_transfer) \<times> gateway" where
  "request_health_info_create patient_abha_id hip_id hiu_id consent_id care_context_ids
       data_types env db =
     (case ensure_consent_approved consent_id patient_abha_id hip_id (consent_uuid env)
             (ensure_patient patient_abha_id db) of
        (Inl e, db2) \<Rightarrow> (Inl e, db2)
      | (Inr approved_consent_id, db2) \<Rightarrow>
          let request_id = ''req-'' @ request_uuid env;
              new_transfer = \<lparr>dt_consent_request_id = approved_consent_id,
                 dt_patient_abha_id = patient_abha_id,
                 dt_from_entity = hip_id,
                 dt_to_entity = (if hiu_id \<noteq> [] then hiu_id else ''unknown-hiu''),
                 dt_status = ''REQUESTED'',
                 dt_data_count = length data_types,
                 dt_next_retry_at = Some (now_next_retry env),
                 dt_expires_at = Some (now_expires env + hours24),
                 dt_encrypted_data = None\<rparr>
          in if transfers db2 request_id \<noteq> None then (Inl IntegrityError, db2)
             else (Inr (request_id, approved_consent_id, new_transfer),
                   db2\<lparr>transfers := (transfers db2)(request_id \<mapsto> new_transfer)\<rparr>))"

text \<open>
  \<open>request_health_info\<close>: after the row is stored the dispatcher is called (the call is
  appended to \<open>hip_requests\<close>), and the row's status becomes \<open>FORWARDED\<close> or \<open>FAILED\<close> after
  its answer.
\<close>

definition request_health_info ::
  "string \<Rightarrow> string \<Rightarrow> string \<Rightarrow> string option \<Rightarrow> string list \<Rightarrow> string list \<Rightarrow> rhi_env \<Rightarrow>
   gateway \<Rightarrow> (error + dict) \<times> gateway" where
  "request_health_info patient_abha_id hip_id hiu_id consent_id care_context_ids data_types
       env db =
     (case request_health_info_create patient_abha_id hip_id hiu_id consent_id
             care_context_ids data_types env db of
        (Inl e, db3) \<Rightarrow> (Inl e, db3)
      | (Inr (request_id, approved_consent_id, new_transfer), db3) \<Rightarrow>
          let call = \<lparr>hr_transfer_id = request_id, hr_hip_id = hip_id, hr_hiu_id = hiu_id,
                 hr_patient_id = patient_abha_id, hr_consent_id = approved_consent_id,
                 hr_care_context_ids = care_context_ids, hr_data_types = data_types\<rparr>;
              db4 = db3\<lparr>hip_requests := hip_requests db3 @ [call]\<rparr>;
              status = (if webhook_sent env then ''FORWARDED'' else ''FAILED'')
          in (Inr [(''requestId'', request_id),
                   (''consentId'', approved_consent_id),
                   (''status'', status),
                   (''message'', ''Data request created and forwarded to HIP'')],
              db4\<lparr>transfers :=
                    (transfers db4)(request_id \<mapsto> new_transfer\<lparr>dt_status := status\<rparr>)\<rparr>))"

text \<open>
  \<open>receive_health_data_from_hip\<close>. \<open>encrypt_dict\<close> is \<open>encryptor.encrypt_dict\<close> of
  \<open>app/utils/encryption.py\<close>, which is not among the sources: it is a parameter, a function
  from the bundle to the stored text. \<open>now\<close> is the reading of \<open>datetime.utcnow()\<close>.
\<close>

definition receive_health_data_from_hip ::
  "(json \<Rightarrow> string) \<Rightarrow> string \<Rightarrow> json \<Rightarrow> int \<Rightarrow> gateway \<Rightarrow> dict \<times> gateway" where
  "receive_health_data_from_hip encrypt_dict request_id health_data now db =
     (case transfers db request_id of
        None \<Rightarrow> ([(''error'', ''Request not found''), (''status'', ''FAILED'')], db)
      | Some transfer \<Rightarrow>
          if dt_status transfer \<notin> set [''REQUESTED'', ''FORWARDED'', ''PROCESSING'']
          then ([(''error'', ''Invalid request status: '' @ dt_status transfer),
                 (''status'', ''FAILED'')], db)
          else
            let encrypted_data = encrypt_dict health_data
            in ([(''requestId'', request_id),
                 (''status'', ''READY''),
                 (''message'', ''Health data received and ready for delivery'')],
                db\<lparr>transfers := (transfers db)(request_id \<mapsto>
                     transfer\<lparr>dt_encrypted_data := Some encrypted_data,
                       dt_status := ''READY'',
                       dt_next_retry_at := Some now\<rparr>)\<rparr>))"

text \<open>\<open>send_health_info\<close>, the legacy method; \<open>uuid\<close> is the text of \<open>uuid.uuid4()\<close>.\<close>

definition send_health_info ::
  "string \<Rightarrow> string \<Rightarrow> string \<Rightarrow> string \<Rightarrow> json \<Rightarrow> json \<Rightarrow> string \<Rightarrow> gateway \<Rightarrow>
   (error + dict) \<times> gateway" where
  "send_health_info txn_id patient_id hip_id care_context_id health_info metadata uuid db =
     (let transfer_id = uuid;
          new_transfer = \<lparr>dt_consent_request_id = txn_id,
             dt_patient_abha_id = patient_id,
             dt_from_entity = hip_id,
             dt_to_entity = ''HIU'',
             dt_status = ''DELIVERED'',
             dt_data_count = 1,
             dt_next_retry_at = None,
             dt_expires_at = None,
             dt_encrypted_data = None\<rparr>
      in if transfers db transfer_id \<noteq> None then (Inl IntegrityError, db)
         else (Inr [(''status'', ''RECEIVED''), (''txnId'', txn_id)],
               db\<lparr>transfers := (transfers db)(transfer_id \<mapsto> new_transfer)\<rparr>))"

text \<open>\<open>notify_data_flow\<close>, the legacy status callback.\<close>

definition notify_data_flow :: "string \<Rightarrow> string \<Rightarrow> string \<Rightarrow> gateway \<Rightarrow> dict \<times> gateway" where
  "notify_data_flow txn_id status hip_id db =
     (case transfers db txn_id of
        Some transfer \<Rightarrow>
          ([(''status'', status), (''txnId'', txn_id)],
           db\<lparr>transfers := (transfers db)(txn_id \<mapsto> transfer\<lparr>dt_status := status\<rparr>)\<rparr>)
      | None \<Rightarrow> ([(''status'', ''NOT_FOUND''), (''txnId'', txn_id)], db))"

section \<open>The hospital: routes/patient.py\<close>

text \<open>
  The hospital's \<open>Patient\<close> table is the list of its rows: the lookups of the source are
  \<open>select(...).where(...)\<close> followed by \<open>scalar_one_or_none()\<close>, which raises
  \<open>MultipleResultsFound\<close> on more than one row, so duplicates are kept visible.
  \<open>hp_id\<close> is the text of the row's UUID. A stored \<open>datetime\<close> is represented by its
  \<open>isoformat()\<close> text. The handler's return value is modelled, before FastAPI serialises it:
  a dictionary whose values are \<open>Optional[str]\<close>.
\<close>

type_synonym odict = "(string \<times> string option) list"

record hospital_patient =
  hp_id :: string
  hp_name :: string
  hp_mobile :: "string option"
  hp_abha_id :: "string option"
  hp_abha_address :: "string option"
  hp_gateway_patient_id :: "string option"
  hp_aadhaar :: "string option"
  hp_gender :: "string option"
  hp_date_of_birth :: "string option"

record registration_request =
  rq_name :: string
  rq_mobile :: string
  rq_abhaId :: "string option"
  rq_abhaAddress :: "string option"
  rq_aadhaar :: "string option"
  rq_gender :: "string option"
  rq_dateOfBirth :: "string option"

text \<open>
  The answer of \<open>discover_patient\<close> (\<open>app/services/gateway_service.py\<close>, not among the
  sources): a dictionary, of which the handler reads five keys; or nothing usable, when the
  call raised or returned a falsy value that is no dictionary; or a truthy value that is no
  dictionary.
\<close>

record gateway_reply =
  gw_patientId :: "string option"
  gw_abhaId :: "string option"
  gw_abhaAddress :: "string option"
  gw_gender :: "string option"
  gw_dateOfBirth :: "string option"

datatype gateway_outcome =
    GatewayDict gateway_reply
  | GatewayNone
  | GatewayOther

text \<open>
  What the environment answers during one call of \<open>register_patient\<close>:
  \<open>fromisoformat\<close> and \<open>strptime_ymd\<close> are \<open>datetime.fromisoformat\<close> and
  \<open>datetime.strptime(_, "%Y-%m-%d")\<close>, with \<open>None\<close> for \<open>ValueError\<close>; \<open>insert_error\<close> is the
  database's check of a new row against the schema of \<open>app/database/models.py\<close> (not among
  the sources), giving the text of \<open>e.orig\<close> when the insert raises \<open>IntegrityError\<close>;
  \<open>new_uuid\<close> is the id the new row gets; \<open>discovered\<close> is the gateway's answer.
\<close>

record hospital_env =
  fromisoformat :: "string \<Rightarrow> string option"
  strptime_ymd :: "string \<Rightarrow> string option"
  insert_error :: "hospital_patient list \<Rightarrow> hospital_patient \<Rightarrow> string option"
  new_uuid :: string
  discovered :: gateway_outcome

fun scalar_one_or_none :: "'a list \<Rightarrow> error + 'a option" where
  "scalar_one_or_none [] = Inr None"
| "scalar_one_or_none [row] = Inr (Some row)"
| "scalar_one_or_none rows = Inl MultipleResultsFound"

text \<open>\<open>d[k] = v\<close> on a Python dictionary: an existing key keeps its place, a new one goes last.\<close>

fun dict_set :: "string \<Rightarrow> 'v \<Rightarrow> (string \<times> 'v) list \<Rightarrow> (string \<times> 'v) list" where
  "dict_set k v [] = [(k, v)]"
| "dict_set k v ((k', v') # d) = (if k' = k then (k, v) # d else (k', v') # dict_set k v d)"

text \<open>\<open>str.lower()\<close> on ASCII letters, \<open>sub in s\<close>, and \<open>s.replace("Z", "+00:00")\<close>.\<close>

definition lower_char :: "char \<Rightarrow> char" where
  "lower_char c =
     (let n = (of_char c :: nat) in if 65 \<le> n \<and> n \<le> 90 then char_of (n + 32) else c)"

fun contains :: "string \<Rightarrow> string \<Rightarrow> bool" where
  "contains [] sub = (sub = [])"
| "contains (c # cs) sub = (prefix sub (c # cs) \<or> contains cs sub)"

definition replace_Z :: "string \<Rightarrow> string" where
  "replace_Z s = concat (map (\<lambda>c. if c = CHR ''Z'' then ''+00:00'' else [c]) s)"

text \<open>An update of the attributes of one ORM object, written by primary key on commit.\<close>

definition update_row ::
  "string \<Rightarrow> (hospital_patient \<Rightarrow> hospital_patient) \<Rightarrow> hospital_patient list \<Rightarrow>
   hospital_patient list" where
  "update_row pid f db = map (\<lambda>p. if hp_id p = pid then f p else p) db"

definition find_patient_by_mobile ::
  "hospital_patient list \<Rightarrow> string \<Rightarrow> error + odict option" where
  "find_patient_by_mobile db mobile =
     (case scalar_one_or_none (filter (\<lambda>p. hp_mobile p = Some mobile) db) of
        Inl e \<Rightarrow> Inl e
      | Inr None \<Rightarrow> Inr None
      | Inr (Some result) \<Rightarrow>
          Inr (Some [(''patientId'', Some (hp_id result)),
                     (''name'', Some (hp_name result)),
                     (''mobile'', hp_mobile result),
                     (''abhaId'', hp_abha_id result),
                     (''gatewayPatientId'', hp_gateway_patient_id result),
                     (''aadhaar'', hp_aadhaar result),
                     (''gender'', hp_gender result),
                     (''dateOfBirth'', hp_date_of_birth result)]))"

definition create_new_patient ::
  "hospital_env \<Rightarrow> hospital_patient list \<Rightarrow> registration_request \<Rightarrow> string option \<Rightarrow>
   (error + odict) \<times> hospital_patient list" where
  "create_new_patient env db patient_data gateway_patient_id =
     (let gender = (if truthy (rq_gender patient_data) then rq_gender patient_data else None);
          dob_str = (if truthy (rq_dateOfBirth patient_data)
                     then rq_dateOfBirth patient_data else None);
          date_of_birth =
            (case dob_str of
               None \<Rightarrow> None
             | Some s \<Rightarrow>
                 if CHR ''T'' \<in> set s then fromisoformat env (replace_Z s)
                 else strptime_ymd env s);
          new_patient = \<lparr>hp_id = new_uuid env,
             hp_name = rq_name patient_data,
             hp_mobile = Some (rq_mobile patient_data),
             hp_abha_id = rq_abhaId patient_data,
             hp_abha_address = rq_abhaAddress patient_data,
             hp_gateway_patient_id = gateway_patient_id,
             hp_aadhaar = rq_aadhaar patient_data,
             hp_gender = gender,
             hp_date_of_birth = date_of_birth\<rparr>
      in case insert_error env db new_patient of
           Some orig \<Rightarrow>
             let error_msg = map lower_char orig
             in (Inl (HTTPException 400
                   (if contains error_msg ''aadhaar''
                    then ''A patient with this Aadhaar number already exists''
                    else if contains error_msg ''abha_id''
                    then ''A patient with this ABHA ID already exists''
                    else if contains error_msg ''mobile''
                    then ''A patient with this mobile number already exists''
                    else ''A patient with these details already exists'')), db)
         | None \<Rightarrow>
             (Inr [(''patientId'', Some (hp_id new_patient)),
                   (''name'', Some (hp_name new_patient)),
                   (''mobile'', hp_mobile new_patient),
                   (''abhaId'', hp_abha_id new_patient),
                   (''abhaAddress'', hp_abha_address new_patient),
                   (''gatewayPatientId'', hp_gateway_patient_id new_patient),
                   (''aadhaar'', hp_aadhaar new_patient),
                   (''gender'', hp_gender new_patient),
                   (''dateOfBirth'', hp_date_of_birth new_patient)],
              db @ [new_patient]))"

text \<open>
  \<open>register_patient\<close>, in the four parts the handler runs in order; each of the first
  three either returns (\<open>Some\<close>) or falls through to the next (\<open>None\<close>).

  Lines 132 to 148: the lookup by ABHA id, when the request carries one.
\<close>

definition lookup_by_abha ::
  "registration_request \<Rightarrow> hospital_patient list \<Rightarrow>
   ((error + odict) \<times> hospital_patient list) option" where
  "lookup_by_abha request db =
     (if truthy (rq_abhaId request)
      then case scalar_one_or_none (filter (\<lambda>p. hp_abha_id p = rq_abhaId request) db) of
             Inl e \<Rightarrow> Some (Inl e, db)
           | Inr None \<Rightarrow> None
           | Inr (Some existing_by_abha) \<Rightarrow>
               Some (Inr [(''patientId'', Some (hp_id existing_by_abha)),
                          (''name'', Some (hp_name existing_by_abha)),
                          (''mobile'', hp_mobile existing_by_abha),
                          (''abhaId'', hp_abha_id existing_by_abha),
                          (''aadhaar'', hp_aadhaar existing_by_abha),
                          (''gender'', hp_gender existing_by_abha),
                          (''dateOfBirth'', hp_date_of_birth existing_by_abha),
                          (''gatewayPatientId'', hp_gateway_patient_id existing_by_abha),
                          (''message'', Some ''Patient already registered with this ABHA ID'')],
                     db)
      else None)"

text \<open>
  Lines 151 to 173: the lookup by Aadhaar; a row found without an ABHA id takes the
  request's.
\<close>

definition lookup_by_aadhaar ::
  "registration_request \<Rightarrow> hospital_patient list \<Rightarrow>
   ((error + odict) \<times> hospital_patient list) option" where
  "lookup_by_aadhaar request db =
     (if truthy (rq_aadhaar request)
      then case scalar_one_or_none (filter (\<lambda>p. hp_aadhaar p = rq_aadhaar request) db) of
             Inl e \<Rightarrow> Some (Inl e, db)
           | Inr None \<Rightarrow> None
           | Inr (Some found) \<Rightarrow>
               let set_abha = truthy (rq_abhaId request) \<and> \<not> truthy (hp_abha_id found);
                   existing_by_aadhaar =
                     (if set_abha then found\<lparr>hp_abha_id := rq_abhaId request\<rparr> else found);
                   db' = (if set_abha
                          then update_row (hp_id found)
                                 (\<lambda>p. p\<lparr>hp_abha_id := rq_abhaId request\<rparr>) db
                          else db)
               in Some (Inr [(''patientId'', Some (hp_id existing_by_aadhaar)),
                             (''name'', Some (hp_name existing_by_aadhaar)),
                             (''mobile'', hp_mobile existing_by_aadhaar),
                             (''abhaId'', hp_abha_id existing_by_aadhaar),
                             (''aadhaar'', hp_aadhaar existing_by_aadhaar),
                             (''gender'', hp_gender existing_by_aadhaar),
                             (''dateOfBirth'', hp_date_of_birth existing_by_aadhaar),
                             (''gatewayPatientId'', hp_gateway_patient_id existing_by_aadhaar),
                             (''message'',
                              Some ''Patient already registered with this Aadhaar number'')],
                        db')
      else None)"

text \<open>Lines 176 to 178: the lookup by mobile number.\<close>

definition lookup_by_mobile ::
  "registration_request \<Rightarrow> hospital_patient list \<Rightarrow>
   ((error + odict) \<times> hospital_patient list) option" where
  "lookup_by_mobile request db =
     (case find_patient_by_mobile db (rq_mobile request) of
        Inl e \<Rightarrow> Some (Inl e, db)
      | Inr None \<Rightarrow> None
      | Inr (Some existing_patient) \<Rightarrow> Some (Inr existing_patient, db))"

text \<open>
  Lines 180 to 273: the gateway is asked, the row is created with what it answered, read
  back by its id and completed with the gateway's fields it still lacks. The attribute
  changes are written only when \<open>updated\<close> is set; \<open>AttributeError\<close> is \<open>.get\<close> on a truthy
  answer that is no dictionary.
\<close>

definition register_new ::
  "registration_request \<Rightarrow> hospital_env \<Rightarrow> hospital_patient list \<Rightarrow>
   (error + odict) \<times> hospital_patient list" where
  "register_new request env db =
     (let gateway_result = discovered env;
          gateway_patient_id =
            (case gateway_result of GatewayDict g \<Rightarrow> gw_patientId g | _ \<Rightarrow> None);
          gateway_abha_id =
            (case gateway_result of
               GatewayDict g \<Rightarrow> if truthy (gw_abhaId g) then gw_abhaId g else rq_abhaId request
             | _ \<Rightarrow> None);
          gateway_abha_address =
            (case gateway_result of GatewayDict g \<Rightarrow> gw_abhaAddress g | _ \<Rightarrow> None);
          gateway_gender =
            (case gateway_result of GatewayDict g \<Rightarrow> gw_gender g | _ \<Rightarrow> None);
          gateway_dob =
            (case gateway_result of GatewayDict g \<Rightarrow> gw_dateOfBirth g | _ \<Rightarrow> None);
          patient_data = request\<lparr>
             rq_abhaId := (if truthy gateway_abha_id then gateway_abha_id
                           else rq_abhaId request),
             rq_abhaAddress := (if truthy gateway_abha_address then gateway_abha_address
                                else rq_abhaAddress request),
             rq_gender := (if truthy gateway_gender then gateway_gender
                           else rq_gender request),
             rq_dateOfBirth := (if truthy gateway_dob then gateway_dob
                                else rq_dateOfBirth request)\<rparr>;
          message = Some (''Patient registered successfully'' @
             (if truthy gateway_patient_id then '' and synced with gateway'' else []))
      in case create_new_patient env db patient_data gateway_patient_id of
           (Inl e, db1) \<Rightarrow> (Inl e, db1)
         | (Inr new_patient, db1) \<Rightarrow>
             (case scalar_one_or_none (filter (\<lambda>p. hp_id p = new_uuid env) db1) of
                Inl e \<Rightarrow> (Inl e, db1)
              | Inr None \<Rightarrow> (Inr (dict_set ''message'' message new_patient), db1)
              | Inr (Some patient_obj) \<Rightarrow>
                  let (obj1, np1, upd1) =
                        (if truthy gateway_abha_id \<and> \<not> truthy (hp_abha_id patient_obj)
                         then (patient_obj\<lparr>hp_abha_id := gateway_abha_id\<rparr>,
                               dict_set ''abhaId'' gateway_abha_id new_patient, True)
                         else (patient_obj, new_patient, False));
                      (obj2, np2, upd2) =
                        (if truthy gateway_abha_address \<and> \<not> truthy (hp_abha_address obj1)
                         then (obj1\<lparr>hp_abha_address := gateway_abha_address\<rparr>,
                               dict_set ''abhaAddress'' gateway_abha_address np1, True)
                         else (obj1, np1, upd1))
                  in if gateway_result = GatewayOther then (Inl AttributeError, db1)
                     else
                       let (obj3, np3, upd3) =
                             (if truthy gateway_gender \<and> \<not> truthy (hp_gender obj2)
                              then (obj2\<lparr>hp_gender := gateway_gender\<rparr>,
                                    dict_set ''gender'' gateway_gender np2, True)
                              else (obj2, np2, upd2));
                           (obj4, np4, upd4) =
                             (case gateway_dob of
                                None \<Rightarrow> (obj3, np3, upd3)
                              | Some s \<Rightarrow>
                                  if s \<noteq> [] \<and> hp_date_of_birth obj3 = None
                                  then (case fromisoformat env s of
                                          None \<Rightarrow> (obj3, np3, upd3)
                                        | Some d \<Rightarrow>
                                            (obj3\<lparr>hp_date_of_birth := Some d\<rparr>,
                                             dict_set ''dateOfBirth'' (Some s) np3, True))
                                  else (obj3, np3, upd3));
                           db2 = (if upd4 then update_row (hp_id patient_obj) (\<lambda>p. obj4) db1
                                  else db1)
                       in (Inr (dict_set ''message'' message np4), db2)))"

definition register_patient ::
  "registration_request \<Rightarrow> hospital_env \<Rightarrow> hospital_patient list \<Rightarrow>
   (error + odict) \<times> hospital_patient list" where
  "register_patient request env db =
     (case lookup_by_abha request db of
        Some r \<Rightarrow> r
      | None \<Rightarrow>
          (case lookup_by_aadhaar request db of
             Some r \<Rightarrow> r
           | None \<Rightarrow>
               (case lookup_by_mobile request db of
                  Some r \<Rightarrow> r
                | None \<Rightarrow> register_new request env db)))"

section \<open>Predicates, sequences of calls, example stores\<close>

text \<open>An error result is a dictionary with the key \<open>error\<close>.\<close>

definition is_error_result :: "dict \<Rightarrow> bool" where
  "is_error_result d = (map_of d ''error'' \<noteq> None)"

definition terminal :: "data_transfer \<Rightarrow> bool" where
  "terminal t = (dt_status t \<in> {''DELIVERED'', ''EXPIRED''})"

definition payload_matches_status :: "data_transfer \<Rightarrow> bool" where
  "payload_matches_status t =
     ((dt_encrypted_data t \<noteq> None) = (dt_status t \<in> {''READY'', ''DELIVERED''}))"

definition payload_invariant :: "gateway \<Rightarrow> bool" where
  "payload_invariant db = (\<forall>t \<in> ran (transfers db). payload_matches_status t)"

text \<open>
  One call of a writing function of \<open>consent_service.py\<close> or \<open>data_service.py\<close>, with its
  arguments and the environment's answers; \<open>step\<close> gives the store after the call, whether it
  returned or raised.
\<close>

datatype gateway_op =
    RequestHealthInfo string string string "string option" "string list" "string list" rhi_env
  | ReceiveHealthData string json int
  | SendHealthInfo string string string string json json string
  | NotifyDataFlow string string string
  | InitConsent string string dict string
  | NotifyConsent string string

fun step :: "(json \<Rightarrow> string) \<Rightarrow> gateway_op \<Rightarrow> gateway \<Rightarrow> gateway" where
  "step enc (RequestHealthInfo p h u c ccs dts env) db =
     snd (request_health_info p h u c ccs dts env db)"
| "step enc (ReceiveHealthData rid payload now) db =
     snd (receive_health_data_from_hip enc rid payload now db)"
| "step enc (SendHealthInfo txn p h cc hi md uuid) db =
     snd (send_health_info txn p h cc hi md uuid db)"
| "step enc (NotifyDataFlow txn status h) db = snd (notify_data_flow txn status h db)"
| "step enc (InitConsent p h purpose uuid) db = snd (init_consent p h purpose uuid db)"
| "step enc (NotifyConsent cid status) db = snd (notify_consent cid status db)"

fun is_notify_data_flow :: "gateway_op \<Rightarrow> bool" where
  "is_notify_data_flow (NotifyDataFlow txn status h) = True"
| "is_notify_data_flow other = False"

definition run :: "(json \<Rightarrow> string) \<Rightarrow> gateway_op list \<Rightarrow> gateway \<Rightarrow> gateway" where
  "run enc ops db = fold (step enc) ops db"

text \<open>
  A store with one patient, one consent \<open>c1\<close> and one transfer \<open>req-1\<close> that refers to both,
  in the given statuses; an environment; an encryptor.
\<close>

definition sample_consent :: "string \<Rightarrow> consent_request" where
  "sample_consent status =
     \<lparr>cr_patient_abha_id = ''abha-1'', cr_hip_id = ''hip-1'',
      cr_purpose = [(''text'', ''care'')], cr_status = status\<rparr>"

definition sample_transfer :: "string \<Rightarrow> data_transfer" where
  "sample_transfer status =
     \<lparr>dt_consent_request_id = ''c1'', dt_patient_abha_id = ''abha-1'',
      dt_from_entity = ''hip-1'', dt_to_entity = ''hiu-1'', dt_status = status,
      dt_data_count = 1, dt_next_retry_at = Some 0, dt_expires_at = Some hours24,
      dt_encrypted_data = None\<rparr>"

definition sample_gateway :: "string \<Rightarrow> string \<Rightarrow> gateway" where
  "sample_gateway consent_status transfer_status =
     \<lparr>patients = [''abha-1'' \<mapsto> \<lparr>gp_name = ''Patient abha-1''\<rparr>],
      consents = [''c1'' \<mapsto> sample_consent consent_status],
      transfers = [''req-1'' \<mapsto> sample_transfer transfer_status],
      hip_requests = []\<rparr>"

definition sample_env :: "int \<Rightarrow> int \<Rightarrow> bool \<Rightarrow> rhi_env" where
  "sample_env t1 t2 sent =
     \<lparr>consent_uuid = ''aaaa'', request_uuid = ''bbbb'', now_next_retry = t1,
      now_expires = t2, webhook_sent = sent\<rparr>"

definition sample_encrypt :: "json \<Rightarrow> string" where
  "sample_encrypt health_data = ''gAAAAAB''"

text \<open>
  A hospital table with one patient who has no ABHA id yet, a request with the same mobile
  number and Aadhaar that brings an ABHA id, and an environment.
\<close>

definition sample_patient :: hospital_patient where
  "sample_patient =
     \<lparr>hp_id = ''7d1f'', hp_name = ''Asha'', hp_mobile = Some ''9000000001'',
      hp_abha_id = None, hp_abha_address = None, hp_gateway_patient_id = Some ''gw-1'',
      hp_aadhaar = Some ''123412341234'', hp_gender = Some ''Female'',
      hp_date_of_birth = None\<rparr>"

definition sample_request :: registration_request where
  "sample_request =
     \<lparr>rq_name = ''Asha'', rq_mobile = ''9000000001'', rq_abhaId = Some ''asha@abdm'',
      rq_abhaAddress = None, rq_aadhaar = Some ''123412341234'', rq_gender = None,
      rq_dateOfBirth = None\<rparr>"

definition sample_hospital_env :: hospital_env where
  "sample_hospital_env =
     \<lparr>fromisoformat = (\<lambda>s. None), strptime_ymd = (\<lambda>s. None),
      insert_error = (\<lambda>db p. None), new_uuid = ''0a0a'', discovered = GatewayNone\<rparr>"

section \<open>Consent notification\<close>

text \<open>
  C9. For a consent id unknown to the store, \<open>notify_consent\<close> returns the \<open>NOT_FOUND\<close>
  result and leaves the whole store as it was (the function has no raising branch); for a
  known consent id it stores the given status on that consent, changes nothing else, and
  returns the given status.
\<close>

theorem notify_consent_spec:
  "(consents db consent_id = None \<longrightarrow>
      notify_consent consent_id status db =
        ([(''consentRequestId'', consent_id), (''status'', ''NOT_FOUND'')], db)) \<and>
   (\<forall>consent. consents db consent_id = Some consent \<longrightarrow>
      fst (notify_consent consent_id status db) =
        [(''consentRequestId'', consent_id), (''status'', status)] \<and>
      consents (snd (notify_consent consent_id status db)) consent_id =
        Some (consent\<lparr>cr_status := status\<rparr>) \<and>
      (\<forall>other. other \<noteq> consent_id \<longrightarrow>
         consents (snd (notify_consent consent_id status db)) other = consents db other) \<and>
      patients (snd (notify_consent consent_id status db)) = patients db \<and>
      transfers (snd (notify_consent consent_id status db)) = transfers db \<and>
      hip_requests (snd (notify_consent consent_id status db)) = hip_requests db)"
  by (simp add: notify_consent_def)

theorem notify_consent_spec_witness:
  "consents (sample_gateway ''APPROVED'' ''FORWARDED'') ''c404'' = None \<and>
   notify_consent ''c404'' ''REVOKED'' (sample_gateway ''APPROVED'' ''FORWARDED'') =
     ([(''consentRequestId'', ''c404''), (''status'', ''NOT_FOUND'')],
      sample_gateway ''APPROVED'' ''FORWARDED'') \<and>
   consents (sample_gateway ''APPROVED'' ''FORWARDED'') ''c1'' =
     Some (sample_consent ''APPROVED'') \<and>
   fst (notify_consent ''c1'' ''REVOKED'' (sample_gateway ''APPROVED'' ''FORWARDED'')) =
     [(''consentRequestId'', ''c1''), (''status'', ''REVOKED'')] \<and>
   consents (snd (notify_consent ''c1'' ''REVOKED'' (sample_gateway ''APPROVED'' ''FORWARDED'')))
     ''c1'' = Some (sample_consent ''REVOKED'')"
proof -
  have unknown: "consents (sample_gateway ''APPROVED'' ''FORWARDED'') ''c404'' = None"
    by (simp add: sample_gateway_def)
  have known: "consents (sample_gateway ''APPROVED'' ''FORWARDED'') ''c1'' =
     Some (sample_consent ''APPROVED'')"
    by (simp add: sample_gateway_def)
  have upd: "(sample_consent ''APPROVED'')\<lparr>cr_status := ''REVOKED''\<rparr> = sample_consent ''REVOKED''"
    by (simp add: sample_consent_def)
  show ?thesis
    using notify_consent_spec [of "sample_gateway ''APPROVED'' ''FORWARDED''" "''c404''" "''REVOKED''"]
      notify_consent_spec [of "sample_gateway ''APPROVED'' ''FORWARDED''" "''c1''" "''REVOKED''"]
      unknown known upd
    by simp
qed

section \<open>Receiving health data from the holder\<close>

text \<open>
  C5. \<open>receive_health_data_from_hip\<close> returns an error result if and only if the transfer
  does not exist or its status is none of \<open>REQUESTED\<close>, \<open>FORWARDED\<close>, \<open>PROCESSING\<close>; and with
  an error result the store is returned as it was, so no payload is stored and no status
  changes.
\<close>

theorem receive_error_iff:
  "(is_error_result (fst (receive_health_data_from_hip encrypt_dict request_id health_data now db))
      \<longleftrightarrow> (transfers db request_id = None \<or>
           (\<exists>transfer. transfers db request_id = Some transfer \<and>
              dt_status transfer \<notin> {''REQUESTED'', ''FORWARDED'', ''PROCESSING''}))) \<and>
   (is_error_result (fst (receive_health_data_from_hip encrypt_dict request_id health_data now db))
      \<longrightarrow> snd (receive_health_data_from_hip encrypt_dict request_id health_data now db) = db)"
  by (simp add: receive_health_data_from_hip_def is_error_result_def Let_def
        split: option.splits)

theorem receive_error_iff_witness:
  "is_error_result (fst (receive_health_data_from_hip sample_encrypt ''req-1'' JNull 5
       (sample_gateway ''APPROVED'' ''READY''))) \<and>
   snd (receive_health_data_from_hip sample_encrypt ''req-1'' JNull 5
       (sample_gateway ''APPROVED'' ''READY'')) = sample_gateway ''APPROVED'' ''READY'' \<and>
   is_error_result (fst (receive_health_data_from_hip sample_encrypt ''req-2'' JNull 5
       (sample_gateway ''APPROVED'' ''READY''))) \<and>
   \<not> is_error_result (fst (receive_health_data_from_hip sample_encrypt ''req-1'' JNull 5
       (sample_gateway ''APPROVED'' ''FORWARDED'')))"
  using receive_error_iff [of sample_encrypt "''req-1''" JNull 5 "sample_gateway ''APPROVED'' ''READY''"]
    receive_error_iff [of sample_encrypt "''req-2''" JNull 5 "sample_gateway ''APPROVED'' ''READY''"]
    receive_error_iff [of sample_encrypt "''req-1''" JNull 5
      "sample_gateway ''APPROVED'' ''FORWARDED''"]
  by (simp add: sample_gateway_def sample_transfer_def)

text \<open>
  C4, as the code has it. A payload submitted for a transfer in \<open>REQUESTED\<close> is accepted,
  exactly as for \<open>FORWARDED\<close> and \<open>PROCESSING\<close>: the result is the \<open>READY\<close> answer, and the
  stored transfer is the old one with the encrypted payload set, status \<open>READY\<close> and
  \<open>next_retry_at\<close> set to the clock reading of the call.
\<close>

theorem receive_accepts:
  assumes "transfers db request_id = Some transfer"
    and "dt_status transfer \<in> {''REQUESTED'', ''FORWARDED'', ''PROCESSING''}"
  shows "receive_health_data_from_hip encrypt_dict request_id health_data now db =
           ([(''requestId'', request_id), (''status'', ''READY''),
             (''message'', ''Health data received and ready for delivery'')],
            db\<lparr>transfers := (transfers db)(request_id \<mapsto>
              transfer\<lparr>dt_encrypted_data := Some (encrypt_dict health_data),
                dt_status := ''READY'', dt_next_retry_at := Some now\<rparr>)\<rparr>)"
  using assms by (auto simp add: receive_health_data_from_hip_def Let_def)

theorem receive_accepts_witness:
  "transfers (sample_gateway ''APPROVED'' ''FORWARDED'') ''req-1'' =
     Some (sample_transfer ''FORWARDED'') \<and>
   dt_status (sample_transfer ''FORWARDED'') = ''FORWARDED'' \<and>
   fst (receive_health_data_from_hip sample_encrypt ''req-1'' (JObj [(''records'', JArr [])]) 5
        (sample_gateway ''APPROVED'' ''FORWARDED'')) =
     [(''requestId'', ''req-1''), (''status'', ''READY''),
      (''message'', ''Health data received and ready for delivery'')] \<and>
   transfers (snd (receive_health_data_from_hip sample_encrypt ''req-1''
        (JObj [(''records'', JArr [])]) 5 (sample_gateway ''APPROVED'' ''FORWARDED''))) ''req-1'' =
     Some ((sample_transfer ''FORWARDED'')\<lparr>dt_encrypted_data := Some ''gAAAAAB'',
        dt_status := ''READY'', dt_next_retry_at := Some 5\<rparr>)"
proof -
  have found: "transfers (sample_gateway ''APPROVED'' ''FORWARDED'') ''req-1'' =
     Some (sample_transfer ''FORWARDED'')"
    by (simp add: sample_gateway_def)
  have status: "dt_status (sample_transfer ''FORWARDED'') \<in>
     {''REQUESTED'', ''FORWARDED'', ''PROCESSING''}"
    by (simp add: sample_transfer_def)
  show ?thesis
    using found receive_accepts [OF found status, of sample_encrypt
        "JObj [(''records'', JArr [])]" 5]
    by (simp add: sample_encrypt_def sample_transfer_def)
qed

theorem receive_requested_counterexample:
  "transfers (sample_gateway ''APPROVED'' ''REQUESTED'') ''req-1'' =
     Some (sample_transfer ''REQUESTED'') \<and>
   dt_status (sample_transfer ''REQUESTED'') = ''REQUESTED'' \<and>
   \<not> is_error_result (fst (receive_health_data_from_hip sample_encrypt ''req-1''
        (JObj [(''records'', JArr [])]) 5 (sample_gateway ''APPROVED'' ''REQUESTED''))) \<and>
   transfers (snd (receive_health_data_from_hip sample_encrypt ''req-1''
        (JObj [(''records'', JArr [])]) 5 (sample_gateway ''APPROVED'' ''REQUESTED''))) ''req-1'' =
     Some ((sample_transfer ''REQUESTED'')\<lparr>dt_encrypted_data := Some ''gAAAAAB'',
        dt_status := ''READY'', dt_next_retry_at := Some 5\<rparr>)"
  by (simp add: receive_health_data_from_hip_def sample_gateway_def sample_transfer_def
        sample_encrypt_def is_error_result_def)

section \<open>Requesting health information\<close>

text \<open>What the helpers leave alone, and what a completed call has done.\<close>

lemma ensure_patient_fields [simp]:
  "consents (ensure_patient p db) = consents db"
  "transfers (ensure_patient p db) = transfers db"
  "hip_requests (ensure_patient p db) = hip_requests db"
  by (simp_all add: ensure_patient_def split: option.splits)

lemma ensure_consent_approved_fields:
  "transfers (snd (ensure_consent_approved c p h u db)) = transfers db"
  "hip_requests (snd (ensure_consent_approved c p h u db)) = hip_requests db"
  "patients (snd (ensure_consent_approved c p h u db)) = patients db"
  by (simp_all add: ensure_consent_approved_def Let_def split: option.splits prod.splits)

lemma ensure_consent_approved_status:
  assumes "ensure_consent_approved c p h u db = (Inr cid, db')"
  shows "\<exists>consent. consents db' cid = Some consent \<and> cr_status consent = ''APPROVED''"
  using assms
  by (auto simp add: ensure_consent_approved_def Let_def
      split: option.splits prod.splits if_splits)

lemma create_Inr:
  assumes "request_health_info_create p h u c ccs dts env db = (Inr (rid, cid, t), db3)"
  shows "\<exists>db2.
          ensure_consent_approved c p h (consent_uuid env) (ensure_patient p db) =
            (Inr cid, db2) \<and>
          rid = ''req-'' @ request_uuid env \<and>
          transfers db2 rid = None \<and>
          db3 = db2\<lparr>transfers := (transfers db2)(rid \<mapsto> t)\<rparr> \<and>
          t = \<lparr>dt_consent_request_id = cid, dt_patient_abha_id = p, dt_from_entity = h,
               dt_to_entity = (if u \<noteq> [] then u else ''unknown-hiu''),
               dt_status = ''REQUESTED'', dt_data_count = length dts,
               dt_next_retry_at = Some (now_next_retry env),
               dt_expires_at = Some (now_expires env + hours24),
               dt_encrypted_data = None\<rparr>"
  using assms
  by (auto simp add: request_health_info_create_def Let_def
      split: prod.splits sum.splits if_splits)

lemma request_health_info_Inr:
  assumes "fst (request_health_info p h u c ccs dts env db) = Inr d"
  shows "\<exists>rid cid t db3.
          request_health_info_create p h u c ccs dts env db = (Inr (rid, cid, t), db3) \<and>
          d = [(''requestId'', rid), (''consentId'', cid),
               (''status'', if webhook_sent env then ''FORWARDED'' else ''FAILED''),
               (''message'', ''Data request created and forwarded to HIP'')] \<and>
          snd (request_health_info p h u c ccs dts env db) =
            db3\<lparr>hip_requests := hip_requests db3 @
                  [\<lparr>hr_transfer_id = rid, hr_hip_id = h, hr_hiu_id = u, hr_patient_id = p,
                    hr_consent_id = cid, hr_care_context_ids = ccs, hr_data_types = dts\<rparr>],
                transfers := (transfers db3)(rid \<mapsto>
                  t\<lparr>dt_status := if webhook_sent env then ''FORWARDED'' else ''FAILED''\<rparr>)\<rparr>"
  using assms
  by (auto simp add: request_health_info_def Let_def
      split: prod.splits sum.splits if_splits)

lemma request_health_info_Inl:
  assumes "fst (request_health_info p h u c ccs dts env db) = Inl e"
  shows "transfers (snd (request_health_info p h u c ccs dts env db)) = transfers db"
    and "hip_requests (snd (request_health_info p h u c ccs dts env db)) = hip_requests db"
  using assms
    ensure_consent_approved_fields(1,2) [of c p h "consent_uuid env" "ensure_patient p db"]
  by (auto simp add: request_health_info_def request_health_info_create_def Let_def
      split: prod.splits sum.splits if_splits)

lemma request_health_info_transfers:
  assumes "transfers (snd (request_health_info p h u c ccs dts env db)) tid = Some t"
  shows "transfers db tid = Some t \<or>
   (transfers db tid = None \<and> dt_status t \<in> {''FORWARDED'', ''FAILED''} \<and>
    dt_encrypted_data t = None)"
proof (cases "fst (request_health_info p h u c ccs dts env db)")
  case (Inl e)
  with assms show ?thesis by (simp add: request_health_info_Inl(1))
next
  case (Inr d)
  from request_health_info_Inr [OF Inr] obtain rid cid t0 db3 where
    c: "request_health_info_create p h u c ccs dts env db = (Inr (rid, cid, t0), db3)"
    and s: "snd (request_health_info p h u c ccs dts env db) =
            db3\<lparr>hip_requests := hip_requests db3 @
                  [\<lparr>hr_transfer_id = rid, hr_hip_id = h, hr_hiu_id = u, hr_patient_id = p,
                    hr_consent_id = cid, hr_care_context_ids = ccs, hr_data_types = dts\<rparr>],
                transfers := (transfers db3)(rid \<mapsto>
                  t0\<lparr>dt_status := if webhook_sent env then ''FORWARDED'' else ''FAILED''\<rparr>)\<rparr>"
    by blast
  from create_Inr [OF c] obtain db2 where
    e: "ensure_consent_approved c p h (consent_uuid env) (ensure_patient p db) = (Inr cid, db2)"
    and fresh: "transfers db2 rid = None"
    and db3: "db3 = db2\<lparr>transfers := (transfers db2)(rid \<mapsto> t0)\<rparr>"
    and t0: "dt_encrypted_data t0 = None"
    by auto
  have tr: "transfers db2 = transfers db"
    using ensure_consent_approved_fields(1) [of c p h "consent_uuid env" "ensure_patient p db"] e
    by simp
  show ?thesis
    using assms fresh t0 unfolding s db3 tr
    by (auto split: if_splits)
qed

text \<open>
  The call completes whenever the generated ids are new: the request id always, the
  consent id when the request names no consent.
\<close>

lemma request_health_info_completes:
  assumes "transfers db (''req-'' @ request_uuid env) = None"
    and "truthy c \<or> consents db (''consent-'' @ consent_uuid env) = None"
  shows "\<exists>d. fst (request_health_info p h u c ccs dts env db) = Inr d"
proof -
  obtain r db2 where
    e: "ensure_consent_approved c p h (consent_uuid env) (ensure_patient p db) = (r, db2)"
    by (cases "ensure_consent_approved c p h (consent_uuid env) (ensure_patient p db)")
  have "\<exists>cid. r = Inr cid"
    using e assms(2)
    by (cases c)
       (auto simp add: ensure_consent_approved_def Let_def split: option.splits if_splits)
  then obtain cid where r: "r = Inr cid" by blast
  have "transfers db2 = transfers db"
    using ensure_consent_approved_fields(1) [of c p h "consent_uuid env" "ensure_patient p db"]
      e by simp
  then show ?thesis
    using e r assms(1)
    by (simp add: request_health_info_def request_health_info_create_def Let_def)
qed

lemma sample_request_completes:
  "fst (request_health_info ''abha-1'' ''hip-1'' ''hiu-1'' (Some ''c1'') [''cc-1'']
      [''Prescription''] (sample_env t1 t2 sent) (sample_gateway consent_status ''DELIVERED'')) =
   Inr [(''requestId'', ''req-bbbb''), (''consentId'', ''c1''),
        (''status'', if sent then ''FORWARDED'' else ''FAILED''),
        (''message'', ''Data request created and forwarded to HIP'')]"
  by (simp add: request_health_info_def request_health_info_create_def
      ensure_consent_approved_def ensure_patient_def sample_env_def sample_gateway_def
      sample_consent_def Let_def)

text \<open>
  C8. When \<open>request_health_info\<close> completes, the transfer it created is stored with status
  \<open>FORWARDED\<close> if the dispatcher answered success and \<open>FAILED\<close> if it did not, one of the two
  in every case, and the returned status is the stored one.
\<close>

theorem forwarding_status:
  assumes "fst (request_health_info p h u c ccs dts env db) = Inr d"
  shows "\<exists>rid t. map_of d ''requestId'' = Some rid \<and>
           transfers (snd (request_health_info p h u c ccs dts env db)) rid = Some t \<and>
           dt_status t = (if webhook_sent env then ''FORWARDED'' else ''FAILED'') \<and>
           dt_status t \<in> {''FORWARDED'', ''FAILED''} \<and>
           map_of d ''status'' = Some (dt_status t)"
proof -
  from request_health_info_Inr [OF assms] obtain rid cid t db3 where
    d: "d = [(''requestId'', rid), (''consentId'', cid),
             (''status'', if webhook_sent env then ''FORWARDED'' else ''FAILED''),
             (''message'', ''Data request created and forwarded to HIP'')]"
    and s: "snd (request_health_info p h u c ccs dts env db) =
            db3\<lparr>hip_requests := hip_requests db3 @
                  [\<lparr>hr_transfer_id = rid, hr_hip_id = h, hr_hiu_id = u, hr_patient_id = p,
                    hr_consent_id = cid, hr_care_context_ids = ccs, hr_data_types = dts\<rparr>],
                transfers := (transfers db3)(rid \<mapsto>
                  t\<lparr>dt_status := if webhook_sent env then ''FORWARDED'' else ''FAILED''\<rparr>)\<rparr>"
    by blast
  show ?thesis
    by (rule exI [of _ rid],
        rule exI [of _ "t\<lparr>dt_status := if webhook_sent env then ''FORWARDED'' else ''FAILED''\<rparr>"])
       (simp add: d s)
qed

theorem forwarding_status_witness:
  "fst (request_health_info ''abha-1'' ''hip-1'' ''hiu-1'' (Some ''c1'') [''cc-1'']
      [''Prescription''] (sample_env 0 1 False) (sample_gateway ''APPROVED'' ''DELIVERED'')) =
     Inr [(''requestId'', ''req-bbbb''), (''consentId'', ''c1''), (''status'', ''FAILED''),
          (''message'', ''Data request created and forwarded to HIP'')] \<and>
   (\<exists>t. transfers (snd (request_health_info ''abha-1'' ''hip-1'' ''hiu-1'' (Some ''c1'')
            [''cc-1''] [''Prescription''] (sample_env 0 1 False)
            (sample_gateway ''APPROVED'' ''DELIVERED''))) ''req-bbbb'' = Some t \<and>
        dt_status t = ''FAILED'')"
proof -
  have completed: "fst (request_health_info ''abha-1'' ''hip-1'' ''hiu-1'' (Some ''c1'') [''cc-1'']
      [''Prescription''] (sample_env 0 1 False) (sample_gateway ''APPROVED'' ''DELIVERED'')) =
     Inr [(''requestId'', ''req-bbbb''), (''consentId'', ''c1''), (''status'', ''FAILED''),
          (''message'', ''Data request created and forwarded to HIP'')]"
    using sample_request_completes [of 0 1 False "''APPROVED''"] by simp
  show ?thesis
    using completed forwarding_status [OF completed] by (auto simp add: sample_env_def)
qed

text \<open>
  C7, as the code has it. The transfer that \<open>request_health_info\<close> creates is stored in
  status \<open>REQUESTED\<close>; its \<open>next_retry_at\<close> is the clock reading taken for that column and
  its \<open>expires_at\<close> is a second reading, taken for that column right after, plus 24 hours.
  The two columns are one creation time and that time plus 24 hours exactly when the two
  readings are the same.
\<close>

theorem created_transfer_fields:
  assumes "fst (request_health_info p h u c ccs dts env db) = Inr d"
  shows "\<exists>rid cid t db3.
     request_health_info_create p h u c ccs dts env db = (Inr (rid, cid, t), db3) \<and>
     map_of d ''requestId'' = Some rid \<and>
     transfers db3 rid = Some t \<and>
     dt_status t = ''REQUESTED'' \<and>
     dt_next_retry_at t = Some (now_next_retry env) \<and>
     dt_expires_at t = Some (now_expires env + 86400000000) \<and>
     ((\<exists>created. dt_next_retry_at t = Some created \<and>
                  dt_expires_at t = Some (created + 86400000000))
        \<longleftrightarrow> now_expires env = now_next_retry env)"
proof -
  from request_health_info_Inr [OF assms] obtain rid cid t db3 where
    c: "request_health_info_create p h u c ccs dts env db = (Inr (rid, cid, t), db3)"
    and d: "d = [(''requestId'', rid), (''consentId'', cid),
             (''status'', if webhook_sent env then ''FORWARDED'' else ''FAILED''),
             (''message'', ''Data request created and forwarded to HIP'')]"
    by blast
  from create_Inr [OF c] obtain db2 where
    db3: "db3 = db2\<lparr>transfers := (transfers db2)(rid \<mapsto> t)\<rparr>"
    and t: "dt_status t = ''REQUESTED''" "dt_next_retry_at t = Some (now_next_retry env)"
      "dt_expires_at t = Some (now_expires env + hours24)"
    by auto
  have h: "hours24 = 86400000000" by (simp add: hours24_def)
  show ?thesis
    apply (rule exI [of _ rid], rule exI [of _ cid], rule exI [of _ t], rule exI [of _ db3])
    using c t by (auto simp add: d db3 h)
qed

theorem created_transfer_fields_witness:
  "fst (request_health_info ''abha-1'' ''hip-1'' ''hiu-1'' (Some ''c1'') [''cc-1'']
      [''Prescription''] (sample_env 7 7 True) (sample_gateway ''APPROVED'' ''DELIVERED'')) =
     Inr [(''requestId'', ''req-bbbb''), (''consentId'', ''c1''), (''status'', ''FORWARDED''),
          (''message'', ''Data request created and forwarded to HIP'')] \<and>
   (\<exists>cid t db3.
      request_health_info_create ''abha-1'' ''hip-1'' ''hiu-1'' (Some ''c1'') [''cc-1'']
        [''Prescription''] (sample_env 7 7 True) (sample_gateway ''APPROVED'' ''DELIVERED'') =
        (Inr (''req-bbbb'', cid, t), db3) \<and>
      transfers db3 ''req-bbbb'' = Some t \<and>
      dt_status t = ''REQUESTED'' \<and>
      dt_next_retry_at t = Some 7 \<and>
      dt_expires_at t = Some 86400000007)"
proof -
  have completed: "fst (request_health_info ''abha-1'' ''hip-1'' ''hiu-1'' (Some ''c1'') [''cc-1'']
      [''Prescription''] (sample_env 7 7 True) (sample_gateway ''APPROVED'' ''DELIVERED'')) =
     Inr [(''requestId'', ''req-bbbb''), (''consentId'', ''c1''), (''status'', ''FORWARDED''),
          (''message'', ''Data request created and forwarded to HIP'')]"
    using sample_request_completes [of 7 7 True "''APPROVED''"] by simp
  show ?thesis
    using completed created_transfer_fields [OF completed] by (auto simp add: sample_env_def)
qed

theorem two_clock_readings_counterexample:
  "fst (request_health_info_create ''abha-1'' ''hip-1'' ''hiu-1'' (Some ''c1'') [''cc-1'']
      [''Prescription''] (sample_env 0 1 True) (sample_gateway ''APPROVED'' ''DELIVERED'')) =
     Inr (''req-bbbb'', ''c1'',
       \<lparr>dt_consent_request_id = ''c1'', dt_patient_abha_id = ''abha-1'',
        dt_from_entity = ''hip-1'', dt_to_entity = ''hiu-1'', dt_status = ''REQUESTED'',
        dt_data_count = 1, dt_next_retry_at = Some 0, dt_expires_at = Some 86400000001,
        dt_encrypted_data = None\<rparr>) \<and>
   (0::int) + 86400000000 \<noteq> 86400000001"
  by (simp add: request_health_info_create_def ensure_consent_approved_def ensure_patient_def
      sample_env_def sample_gateway_def sample_consent_def hours24_def Let_def)

text \<open>
  C1, as the code has it. \<open>request_health_info\<close> does not look at a consent's status to
  decide whether to forward: it first makes the referenced consent \<open>APPROVED\<close> (a consent
  found under the given id is overwritten, whatever its status was, and a missing one is
  created), and every call that completes then attempts the forwarding webhook exactly once,
  for that consent. So the consent is \<open>APPROVED\<close> in the store when the webhook is attempted
  and still when the call returns.
\<close>

theorem forwarding_after_auto_approval:
  assumes "fst (request_health_info p h u c ccs dts env db) = Inr d"
  shows "\<exists>rid cid t db3 consent.
     request_health_info_create p h u c ccs dts env db = (Inr (rid, cid, t), db3) \<and>
     (\<forall>given. c = Some given \<and> given \<noteq> [] \<longrightarrow> cid = given) \<and>
     dt_consent_request_id t = cid \<and>
     consents db3 cid = Some consent \<and> cr_status consent = ''APPROVED'' \<and>
     hip_requests (snd (request_health_info p h u c ccs dts env db)) =
       hip_requests db @
         [\<lparr>hr_transfer_id = rid, hr_hip_id = h, hr_hiu_id = u, hr_patient_id = p,
           hr_consent_id = cid, hr_care_context_ids = ccs, hr_data_types = dts\<rparr>] \<and>
     consents (snd (request_health_info p h u c ccs dts env db)) = consents db3"
proof -
  from request_health_info_Inr [OF assms] obtain rid cid t db3 where
    c: "request_health_info_create p h u c ccs dts env db = (Inr (rid, cid, t), db3)"
    and s: "snd (request_health_info p h u c ccs dts env db) =
            db3\<lparr>hip_requests := hip_requests db3 @
                  [\<lparr>hr_transfer_id = rid, hr_hip_id = h, hr_hiu_id = u, hr_patient_id = p,
                    hr_consent_id = cid, hr_care_context_ids = ccs, hr_data_types = dts\<rparr>],
                transfers := (transfers db3)(rid \<mapsto>
                  t\<lparr>dt_status := if webhook_sent env then ''FORWARDED'' else ''FAILED''\<rparr>)\<rparr>"
    by blast
  from create_Inr [OF c] obtain db2 where
    e: "ensure_consent_approved c p h (consent_uuid env) (ensure_patient p db) = (Inr cid, db2)"
    and db3: "db3 = db2\<lparr>transfers := (transfers db2)(rid \<mapsto> t)\<rparr>"
    and t: "dt_consent_request_id t = cid"
    by auto
  from ensure_consent_approved_status [OF e] obtain consent where
    st: "consents db2 cid = Some consent" "cr_status consent = ''APPROVED''"
    by blast
  have given: "\<forall>given. c = Some given \<and> given \<noteq> [] \<longrightarrow> cid = given"
    using e by (auto simp add: ensure_consent_approved_def Let_def
        split: option.splits if_splits prod.splits)
  have hr: "hip_requests db2 = hip_requests db"
    using ensure_consent_approved_fields(2) [of c p h "consent_uuid env" "ensure_patient p db"] e
    by simp
  show ?thesis
    apply (rule exI [of _ rid], rule exI [of _ cid], rule exI [of _ t], rule exI [of _ db3],
        rule exI [of _ consent])
    using c t st given hr by (simp add: s db3)
qed

theorem forwarding_after_auto_approval_witness:
  "fst (request_health_info ''abha-1'' ''hip-1'' ''hiu-1'' (Some ''c1'') [''cc-1'']
      [''Prescription''] (sample_env 0 1 True) (sample_gateway ''REVOKED'' ''DELIVERED'')) =
     Inr [(''requestId'', ''req-bbbb''), (''consentId'', ''c1''), (''status'', ''FORWARDED''),
          (''message'', ''Data request created and forwarded to HIP'')] \<and>
   (\<exists>rid consent.
      hip_requests (snd (request_health_info ''abha-1'' ''hip-1'' ''hiu-1'' (Some ''c1'')
          [''cc-1''] [''Prescription''] (sample_env 0 1 True)
          (sample_gateway ''REVOKED'' ''DELIVERED''))) =
        [\<lparr>hr_transfer_id = rid, hr_hip_id = ''hip-1'', hr_hiu_id = ''hiu-1'',
          hr_patient_id = ''abha-1'', hr_consent_id = ''c1'', hr_care_context_ids = [''cc-1''],
          hr_data_types = [''Prescription'']\<rparr>] \<and>
      consents (snd (request_health_info ''abha-1'' ''hip-1'' ''hiu-1'' (Some ''c1'')
          [''cc-1''] [''Prescription''] (sample_env 0 1 True)
          (sample_gateway ''REVOKED'' ''DELIVERED''))) ''c1'' = Some consent \<and>
      cr_status consent = ''APPROVED'')"
proof -
  have completed: "fst (request_health_info ''abha-1'' ''hip-1'' ''hiu-1'' (Some ''c1'')
      [''cc-1''] [''Prescription''] (sample_env 0 1 True)
      (sample_gateway ''REVOKED'' ''DELIVERED'')) =
     Inr [(''requestId'', ''req-bbbb''), (''consentId'', ''c1''), (''status'', ''FORWARDED''),
          (''message'', ''Data request created and forwarded to HIP'')]"
    using sample_request_completes [of 0 1 True "''REVOKED''"] by simp
  have empty: "hip_requests (sample_gateway ''REVOKED'' ''DELIVERED'') = []"
    by (simp add: sample_gateway_def)
  show ?thesis
    using forwarding_after_auto_approval [OF completed] completed empty
    by (elim exE conjE) simp
qed

theorem denied_consent_counterexample:
  "consents (sample_gateway ''DENIED'' ''DELIVERED'') ''c1'' = Some (sample_consent ''DENIED'') \<and>
   cr_status (sample_consent ''DENIED'') = ''DENIED'' \<and>
   hip_requests (sample_gateway ''DENIED'' ''DELIVERED'') = [] \<and>
   hip_requests (snd (request_health_info ''abha-1'' ''hip-1'' ''hiu-1'' (Some ''c1'') [''cc-1'']
      [''Prescription''] (sample_env 0 1 True) (sample_gateway ''DENIED'' ''DELIVERED''))) =
     [\<lparr>hr_transfer_id = ''req-bbbb'', hr_hip_id = ''hip-1'', hr_hiu_id = ''hiu-1'',
       hr_patient_id = ''abha-1'', hr_consent_id = ''c1'', hr_care_context_ids = [''cc-1''],
       hr_data_types = [''Prescription'']\<rparr>] \<and>
   fst (request_health_info ''abha-1'' ''hip-1'' ''hiu-1'' (Some ''c1'') [''cc-1'']
      [''Prescription''] (sample_env 0 1 True) (sample_gateway ''DENIED'' ''DELIVERED'')) =
     Inr [(''requestId'', ''req-bbbb''), (''consentId'', ''c1''), (''status'', ''FORWARDED''),
          (''message'', ''Data request created and forwarded to HIP'')]"
  by (simp add: request_health_info_def request_health_info_create_def
      ensure_consent_approved_def ensure_patient_def sample_env_def sample_gateway_def
      sample_consent_def Let_def)

section \<open>Terminal states\<close>

lemma step_keeps_terminal:
  assumes "\<not> is_notify_data_flow op" and "transfers db tid = Some t" and "terminal t"
  shows "transfers (step enc op db) tid = Some t"
proof (cases op)
  case (RequestHealthInfo p h u c ccs dts env)
  show ?thesis
  proof (cases "fst (request_health_info p h u c ccs dts env db)")
    case (Inl e)
    then show ?thesis using assms(2) RequestHealthInfo
      by (simp add: request_health_info_Inl(1))
  next
    case (Inr d)
    from request_health_info_Inr [OF Inr] obtain rid cid t0 db3 where
      c: "request_health_info_create p h u c ccs dts env db = (Inr (rid, cid, t0), db3)"
      and s: "snd (request_health_info p h u c ccs dts env db) =
            db3\<lparr>hip_requests := hip_requests db3 @
                  [\<lparr>hr_transfer_id = rid, hr_hip_id = h, hr_hiu_id = u, hr_patient_id = p,
                    hr_consent_id = cid, hr_care_context_ids = ccs, hr_data_types = dts\<rparr>],
                transfers := (transfers db3)(rid \<mapsto>
                  t0\<lparr>dt_status := if webhook_sent env then ''FORWARDED'' else ''FAILED''\<rparr>)\<rparr>"
      by blast
    from create_Inr [OF c] obtain db2 where
      e: "ensure_consent_approved c p h (consent_uuid env) (ensure_patient p db) =
            (Inr cid, db2)"
      and fresh: "transfers db2 rid = None"
      and db3: "db3 = db2\<lparr>transfers := (transfers db2)(rid \<mapsto> t0)\<rparr>"
      by auto
    have tr: "transfers db2 = transfers db"
      using ensure_consent_approved_fields(1) [of c p h "consent_uuid env" "ensure_patient p db"]
        e by simp
    have "rid \<noteq> tid" using fresh assms(2) tr by auto
    then show ?thesis using assms(2) RequestHealthInfo by (simp add: s db3 tr)
  qed
next
  case (ReceiveHealthData rid payload now)
  then show ?thesis using assms
    by (auto simp add: receive_health_data_from_hip_def terminal_def Let_def
        split: option.splits)
next
  case (SendHealthInfo txn p h cc hi md uuid)
  then show ?thesis using assms
    by (auto simp add: send_health_info_def Let_def)
next
  case (NotifyDataFlow txn status h)
  then show ?thesis using assms by simp
next
  case (InitConsent p h purpose uuid)
  then show ?thesis using assms by (auto simp add: init_consent_def Let_def)
next
  case (NotifyConsent cid status)
  then show ?thesis using assms by (auto simp add: notify_consent_def split: option.splits)
qed

lemma run_keeps_terminal:
  assumes "\<forall>op \<in> set ops. \<not> is_notify_data_flow op"
    and "transfers db tid = Some t" and "terminal t"
  shows "transfers (run enc ops db) tid = Some t"
  using assms unfolding run_def
  by (induction ops arbitrary: db) (simp_all add: step_keeps_terminal)

text \<open>
  C2, as the code has it. Along any sequence of calls of \<open>request_health_info\<close>,
  \<open>receive_health_data_from_hip\<close>, \<open>send_health_info\<close>, \<open>init_consent\<close> and \<open>notify_consent\<close>,
  a transfer that is \<open>DELIVERED\<close> or \<open>EXPIRED\<close> stays exactly as it is. \<open>notify_data_flow\<close>
  is the exception: it overwrites the status of any transfer it finds, terminal or not, with
  the status it is given.
\<close>

theorem terminal_stable_without_notify_data_flow:
  "((\<forall>op \<in> set ops. \<not> is_notify_data_flow op) \<and> transfers db tid = Some t \<and> terminal t
      \<longrightarrow> transfers (run enc ops db) tid = Some t) \<and>
   (transfers db tid = Some t
      \<longrightarrow> transfers (snd (notify_data_flow tid status hip_id db)) tid =
            Some (t\<lparr>dt_status := status\<rparr>))"
  by (simp add: run_keeps_terminal notify_data_flow_def)

theorem terminal_stable_without_notify_data_flow_witness:
  "\<not> is_notify_data_flow (ReceiveHealthData ''req-1'' JNull 5) \<and>
   \<not> is_notify_data_flow
       (SendHealthInfo ''c1'' ''abha-1'' ''hip-1'' ''cc-1'' JNull JNull ''tttt'') \<and>
   transfers (sample_gateway ''APPROVED'' ''DELIVERED'') ''req-1'' =
     Some (sample_transfer ''DELIVERED'') \<and>
   terminal (sample_transfer ''DELIVERED'') \<and>
   transfers (run sample_encrypt
       [ReceiveHealthData ''req-1'' JNull 5,
        SendHealthInfo ''c1'' ''abha-1'' ''hip-1'' ''cc-1'' JNull JNull ''tttt'']
       (sample_gateway ''APPROVED'' ''DELIVERED'')) ''req-1'' =
     Some (sample_transfer ''DELIVERED'') \<and>
   transfers (snd (notify_data_flow ''req-1'' ''EXPIRED'' ''hip-1''
       (sample_gateway ''APPROVED'' ''DELIVERED''))) ''req-1'' =
     Some ((sample_transfer ''DELIVERED'')\<lparr>dt_status := ''EXPIRED''\<rparr>)"
proof -
  have ops: "\<forall>op \<in> set [ReceiveHealthData ''req-1'' JNull 5,
                 SendHealthInfo ''c1'' ''abha-1'' ''hip-1'' ''cc-1'' JNull JNull ''tttt''].
      \<not> is_notify_data_flow op"
    by simp
  have found: "transfers (sample_gateway ''APPROVED'' ''DELIVERED'') ''req-1'' =
     Some (sample_transfer ''DELIVERED'')"
    by (simp add: sample_gateway_def)
  have final: "terminal (sample_transfer ''DELIVERED'')"
    by (simp add: terminal_def sample_transfer_def)
  show ?thesis
    using found final
      terminal_stable_without_notify_data_flow [of
        "[ReceiveHealthData ''req-1'' JNull 5,
          SendHealthInfo ''c1'' ''abha-1'' ''hip-1'' ''cc-1'' JNull JNull ''tttt'']"
        "sample_gateway ''APPROVED'' ''DELIVERED''" "''req-1''" "sample_transfer ''DELIVERED''"
        sample_encrypt "''EXPIRED''" "''hip-1''"]
    by (simp add: ops)
qed

theorem notify_data_flow_counterexample:
  "transfers (sample_gateway ''APPROVED'' ''DELIVERED'') ''req-1'' =
     Some (sample_transfer ''DELIVERED'') \<and>
   terminal (sample_transfer ''DELIVERED'') \<and>
   transfers (run sample_encrypt [NotifyDataFlow ''req-1'' ''REQUESTED'' ''hip-1'']
       (sample_gateway ''APPROVED'' ''DELIVERED'')) ''req-1'' =
     Some (sample_transfer ''REQUESTED'') \<and>
   dt_status (sample_transfer ''REQUESTED'') = ''REQUESTED'' \<and>
   \<not> terminal (sample_transfer ''REQUESTED'')"
  by (simp add: run_def notify_data_flow_def sample_gateway_def sample_transfer_def
      terminal_def)

section \<open>Payload and status\<close>

lemma payload_invariantI:
  assumes "\<And>tid t. transfers db tid = Some t \<Longrightarrow> payload_matches_status t"
  shows "payload_invariant db"
  using assms by (auto simp add: payload_invariant_def ran_def)

lemma payload_invariantD:
  assumes "payload_invariant db" and "transfers db tid = Some t"
  shows "payload_matches_status t"
  using assms by (auto simp add: payload_invariant_def ran_def)

lemma request_health_info_payload:
  assumes "payload_invariant db"
  shows "payload_invariant (snd (request_health_info p h u c ccs dts env db))"
proof (rule payload_invariantI)
  fix tid t
  assume "transfers (snd (request_health_info p h u c ccs dts env db)) tid = Some t"
  from request_health_info_transfers [OF this] show "payload_matches_status t"
  proof
    assume "transfers db tid = Some t"
    with assms show ?thesis by (rule payload_invariantD)
  next
    assume "transfers db tid = None \<and> dt_status t \<in> {''FORWARDED'', ''FAILED''} \<and>
      dt_encrypted_data t = None"
    then show ?thesis by (auto simp add: payload_matches_status_def)
  qed
qed

lemma receive_payload:
  assumes "payload_invariant db"
  shows "payload_invariant (snd (receive_health_data_from_hip enc rid payload now db))"
proof (rule payload_invariantI)
  fix tid t
  assume a: "transfers (snd (receive_health_data_from_hip enc rid payload now db)) tid = Some t"
  show "payload_matches_status t"
  proof (cases "transfers db tid = Some t")
    case True
    with assms show ?thesis by (rule payload_invariantD)
  next
    case False
    with a have "dt_status t = ''READY'' \<and> dt_encrypted_data t \<noteq> None"
      by (auto simp add: receive_health_data_from_hip_def Let_def
          split: option.splits if_splits)
    then show ?thesis by (simp add: payload_matches_status_def)
  qed
qed

lemma sample_payload_invariant:
  "payload_invariant (sample_gateway ''APPROVED'' ''FORWARDED'')"
  by (rule payload_invariantI)
     (auto simp add: sample_gateway_def sample_transfer_def payload_matches_status_def
        split: if_splits)

text \<open>
  C3, as the code has it. \<open>request_health_info\<close> and \<open>receive_health_data_from_hip\<close> preserve
  the biconditional: if every stored transfer has a payload exactly when its status is
  \<open>READY\<close> or \<open>DELIVERED\<close>, the same is true after the call (the created transfer has no
  payload and is \<open>FORWARDED\<close> or \<open>FAILED\<close>; an accepted submission stores a payload and makes
  the transfer \<open>READY\<close>). It is no invariant of the service: the legacy \<open>send_health_info\<close>
  creates a \<open>DELIVERED\<close> transfer without a payload.
\<close>

theorem payload_invariant_preserved:
  assumes "payload_invariant db"
  shows "payload_invariant (snd (request_health_info p h u c ccs dts env db)) \<and>
         payload_invariant (snd (receive_health_data_from_hip enc rid payload now db))"
  using assms by (simp add: request_health_info_payload receive_payload)

theorem payload_invariant_preserved_witness:
  "payload_invariant (sample_gateway ''APPROVED'' ''FORWARDED'') \<and>
   payload_invariant (snd (request_health_info ''abha-1'' ''hip-1'' ''hiu-1'' (Some ''c1'')
      [''cc-1''] [''Prescription''] (sample_env 0 1 True)
      (sample_gateway ''APPROVED'' ''FORWARDED''))) \<and>
   payload_invariant (snd (receive_health_data_from_hip sample_encrypt ''req-1''
      (JObj [(''records'', JArr [])]) 5 (sample_gateway ''APPROVED'' ''FORWARDED'')))"
  using sample_payload_invariant
    payload_invariant_preserved [OF sample_payload_invariant, of "''abha-1''" "''hip-1''"
      "''hiu-1''" "Some ''c1''" "[''cc-1'']" "[''Prescription'']" "sample_env 0 1 True"
      sample_encrypt "''req-1''" "JObj [(''records'', JArr [])]" 5]
  by simp

theorem send_health_info_counterexample:
  "payload_invariant (sample_gateway ''APPROVED'' ''FORWARDED'') \<and>
   transfers (snd (send_health_info ''c1'' ''abha-1'' ''hip-1'' ''cc-1'' JNull JNull ''tttt''
       (sample_gateway ''APPROVED'' ''FORWARDED''))) ''tttt'' =
     Some \<lparr>dt_consent_request_id = ''c1'', dt_patient_abha_id = ''abha-1'',
           dt_from_entity = ''hip-1'', dt_to_entity = ''HIU'', dt_status = ''DELIVERED'',
           dt_data_count = 1, dt_next_retry_at = None, dt_expires_at = None,
           dt_encrypted_data = None\<rparr> \<and>
   \<not> payload_invariant (snd (send_health_info ''c1'' ''abha-1'' ''hip-1'' ''cc-1'' JNull JNull
       ''tttt'' (sample_gateway ''APPROVED'' ''FORWARDED'')))"
proof -
  let ?db = "snd (send_health_info ''c1'' ''abha-1'' ''hip-1'' ''cc-1'' JNull JNull ''tttt''
       (sample_gateway ''APPROVED'' ''FORWARDED''))"
  let ?t = "\<lparr>dt_consent_request_id = ''c1'', dt_patient_abha_id = ''abha-1'',
           dt_from_entity = ''hip-1'', dt_to_entity = ''HIU'', dt_status = ''DELIVERED'',
           dt_data_count = 1, dt_next_retry_at = None, dt_expires_at = None,
           dt_encrypted_data = None\<rparr>"
  have t: "transfers ?db ''tttt'' = Some ?t"
    by (simp add: send_health_info_def sample_gateway_def)
  have "\<not> payload_matches_status ?t"
    by (simp add: payload_matches_status_def)
  with t have "\<not> payload_invariant ?db"
    using payload_invariantD by blast
  with t sample_payload_invariant show ?thesis by simp
qed

section \<open>Registering a patient whose mobile number is known\<close>

lemma update_row_ids:
  "map hp_id (update_row pid (\<lambda>p. p\<lparr>hp_abha_id := a\<rparr>) db) = map hp_id db"
  by (induction db) (simp_all add: update_row_def)

lemma update_row_other: "pid \<notin> hp_id ` set db \<Longrightarrow> update_row pid f db = db"
  by (induction db) (auto simp add: update_row_def)

lemma filter_singleton_mem: "filter P xs = [x] \<Longrightarrow> x \<in> set xs \<and> P x"
proof -
  assume "filter P xs = [x]"
  then have "x \<in> set (filter P xs)" by simp
  then show ?thesis by simp
qed

text \<open>
  After the ABHA id of one row has been set to a value no row had, the lookup by that
  value finds that row alone; \<open>hp_id\<close> is the primary key.
\<close>

lemma filter_update_row:
  assumes "distinct (map hp_id db)" and "existing \<in> set db"
    and "filter (\<lambda>p. hp_abha_id p = a) db = []"
  shows "filter (\<lambda>p. hp_abha_id p = a)
           (update_row (hp_id existing) (\<lambda>p. p\<lparr>hp_abha_id := a\<rparr>) db) =
         [existing\<lparr>hp_abha_id := a\<rparr>]"
  using assms
proof (induction db)
  case Nil
  then show ?case by simp
next
  case (Cons r db)
  have r: "hp_abha_id r \<noteq> a" and rest: "filter (\<lambda>p. hp_abha_id p = a) db = []"
    using Cons.prems(3) by (auto split: if_splits)
  show ?case
  proof (cases "existing = r")
    case True
    then have "hp_id existing \<notin> hp_id ` set db" using Cons.prems(1) by auto
    then have "update_row (hp_id existing) (\<lambda>p. p\<lparr>hp_abha_id := a\<rparr>) db = db"
      by (rule update_row_other)
    then show ?thesis using True rest
      by (simp add: update_row_def)
  next
    case False
    then have mem: "existing \<in> set db" using Cons.prems(2) by simp
    then have "hp_id r \<noteq> hp_id existing" using Cons.prems(1) by force
    moreover have "filter (\<lambda>p. hp_abha_id p = a)
           (update_row (hp_id existing) (\<lambda>p. p\<lparr>hp_abha_id := a\<rparr>) db) =
         [existing\<lparr>hp_abha_id := a\<rparr>]"
      using Cons.IH mem rest Cons.prems(1) by simp
    ultimately show ?thesis using r
      by (simp add: update_row_def)
  qed
qed

text \<open>
  C10. Let the request's mobile number match one patient row, let \<open>hp_id\<close> be the primary
  key, and let the request's ABHA id and Aadhaar, where it carries them, match no row or
  that same row. Then \<open>register_patient\<close> returns, with that patient's id, name, mobile
  number, Aadhaar, gender, date of birth and gateway id; the table has the same rows as
  before (no row is created; at most the row's missing ABHA id is filled in from the
  request, on the Aadhaar path); and a second call with the same request, whatever the
  environment answers, leaves the table as the first call left it.
\<close>

theorem register_existing_mobile:
  assumes pk: "distinct (map hp_id db)"
    and mobile: "filter (\<lambda>p. hp_mobile p = Some (rq_mobile request)) db = [existing]"
    and abha: "truthy (rq_abhaId request) \<longrightarrow>
         filter (\<lambda>p. hp_abha_id p = rq_abhaId request) db \<in> {[], [existing]}"
    and aadhaar: "truthy (rq_aadhaar request) \<longrightarrow>
         filter (\<lambda>p. hp_aadhaar p = rq_aadhaar request) db \<in> {[], [existing]}"
  shows "\<exists>response db'. register_patient request env db = (Inr response, db') \<and>
      map_of response ''patientId'' = Some (Some (hp_id existing)) \<and>
      map_of response ''name'' = Some (Some (hp_name existing)) \<and>
      map_of response ''mobile'' = Some (Some (rq_mobile request)) \<and>
      map_of response ''aadhaar'' = Some (hp_aadhaar existing) \<and>
      map_of response ''gender'' = Some (hp_gender existing) \<and>
      map_of response ''dateOfBirth'' = Some (hp_date_of_birth existing) \<and>
      map_of response ''gatewayPatientId'' = Some (hp_gateway_patient_id existing) \<and>
      map hp_id db' = map hp_id db \<and>
      (db' = db \<or>
       db' = update_row (hp_id existing) (\<lambda>p. p\<lparr>hp_abha_id := rq_abhaId request\<rparr>) db) \<and>
      snd (register_patient request env' db') = db'"
proof -
  from filter_singleton_mem [OF mobile]
  have mem: "existing \<in> set db" and mob: "hp_mobile existing = Some (rq_mobile request)"
    by simp_all
  show ?thesis
  proof (cases "truthy (rq_abhaId request) \<and>
      filter (\<lambda>p. hp_abha_id p = rq_abhaId request) db = [existing]")
    case True
    then show ?thesis using mob
      by (simp add: register_patient_def lookup_by_abha_def)
  next
    case no_abha_match: False
    then have by_abha: "lookup_by_abha request db = None"
      using abha by (auto simp add: lookup_by_abha_def)
    show ?thesis
    proof (cases "truthy (rq_aadhaar request) \<and>
        filter (\<lambda>p. hp_aadhaar p = rq_aadhaar request) db = [existing]")
      case aadhaar_match: True
      show ?thesis
      proof (cases "truthy (rq_abhaId request) \<and> \<not> truthy (hp_abha_id existing)")
        case False
        then show ?thesis using by_abha aadhaar_match mob
          by (auto simp add: register_patient_def lookup_by_aadhaar_def Let_def)
      next
        case True
        let ?db' = "update_row (hp_id existing)
                      (\<lambda>p. p\<lparr>hp_abha_id := rq_abhaId request\<rparr>) db"
        have none: "filter (\<lambda>p. hp_abha_id p = rq_abhaId request) db = []"
          using no_abha_match True abha by auto
        have again: "filter (\<lambda>p. hp_abha_id p = rq_abhaId request) ?db' =
            [existing\<lparr>hp_abha_id := rq_abhaId request\<rparr>]"
          using pk mem none by (rule filter_update_row)
        have second: "snd (register_patient request env' ?db') = ?db'"
          using True again by (simp add: register_patient_def lookup_by_abha_def)
        have first: "register_patient request env db =
            (Inr [(''patientId'', Some (hp_id existing)),
                  (''name'', Some (hp_name existing)),
                  (''mobile'', hp_mobile existing),
                  (''abhaId'', rq_abhaId request),
                  (''aadhaar'', hp_aadhaar existing),
                  (''gender'', hp_gender existing),
                  (''dateOfBirth'', hp_date_of_birth existing),
                  (''gatewayPatientId'', hp_gateway_patient_id existing),
                  (''message'', Some ''Patient already registered with this Aadhaar number'')],
             ?db')"
          using True by_abha aadhaar_match
          by (simp add: register_patient_def lookup_by_aadhaar_def Let_def)
        show ?thesis
          unfolding first using second mob by (simp add: update_row_ids)
      qed
    next
      case False
      then have "lookup_by_aadhaar request db = None"
        using aadhaar by (auto simp add: lookup_by_aadhaar_def)
      then show ?thesis using by_abha mobile mob
        by (simp add: register_patient_def lookup_by_mobile_def find_patient_by_mobile_def)
    qed
  qed
qed

theorem register_existing_mobile_witness:
  "distinct (map hp_id [sample_patient]) \<and>
   filter (\<lambda>p. hp_mobile p = Some (rq_mobile sample_request)) [sample_patient] =
     [sample_patient] \<and>
   filter (\<lambda>p. hp_abha_id p = rq_abhaId sample_request) [sample_patient] = [] \<and>
   filter (\<lambda>p. hp_aadhaar p = rq_aadhaar sample_request) [sample_patient] =
     [sample_patient] \<and>
   (\<exists>response db'.
      register_patient sample_request sample_hospital_env [sample_patient] =
        (Inr response, db') \<and>
      map_of response ''patientId'' = Some (Some ''7d1f'') \<and>
      map hp_id db' = [''7d1f''] \<and>
      snd (register_patient sample_request sample_hospital_env db') = db')"
proof -
  have pk: "distinct (map hp_id [sample_patient])" by simp
  have mobile: "filter (\<lambda>p. hp_mobile p = Some (rq_mobile sample_request)) [sample_patient] =
     [sample_patient]"
    by (simp add: sample_patient_def sample_request_def)
  have abha: "filter (\<lambda>p. hp_abha_id p = rq_abhaId sample_request) [sample_patient] = []"
    by (simp add: sample_patient_def sample_request_def)
  have aadhaar: "filter (\<lambda>p. hp_aadhaar p = rq_aadhaar sample_request) [sample_patient] =
     [sample_patient]"
    by (simp add: sample_patient_def sample_request_def)
  have abha': "truthy (rq_abhaId sample_request) \<longrightarrow>
     filter (\<lambda>p. hp_abha_id p = rq_abhaId sample_request) [sample_patient] \<in>
       {[], [sample_patient]}"
    using abha by simp
  have aadhaar': "truthy (rq_aadhaar sample_request) \<longrightarrow>
     filter (\<lambda>p. hp_aadhaar p = rq_aadhaar sample_request) [sample_patient] \<in>
       {[], [sample_patient]}"
    using aadhaar by simp
  have id: "hp_id sample_patient = ''7d1f''" by (simp add: sample_patient_def)
  show ?thesis
    using pk mobile abha aadhaar id
      register_existing_mobile [OF pk mobile abha' aadhaar', of sample_hospital_env
        sample_hospital_env]
    by (elim exE conjE) simp
qed

end
